theory Spec2Isabelle
  imports Main "HOL-Library.Sublist"
begin

section \<open>The regexp package\<close>

text \<open>
  Go's standard \<^verbatim>\<open>regexp\<close> package is not part of the repository. The hook model
  uses two of its operations, \<^verbatim>\<open>regexp.Compile\<close> and \<^verbatim>\<open>(*Regexp).MatchString\<close>. They
  are a parameter of every definition below: \<open>'r\<close> is the type of compiled expressions,
  \<open>Compile\<close> returns the text of the error (\<open>Inl\<close>) or the compiled expression
  (\<open>Inr\<close>).
\<close>

record 'r regexp =
  Compile :: "string \<Rightarrow> string + 'r"
  MatchString :: "'r \<Rightarrow> string \<Rightarrow> bool"

text \<open>
  A concrete instance, for evaluating the definitions at concrete hooks. It agrees
  with Go on the patterns used below: a pattern of letters, digits and slashes is a
  literal, it compiles, and it matches every string that contains it (Go's matching is
  not anchored); the pattern \<^verbatim>\<open>(\<close> is rejected for its missing closing parenthesis.
  Every other pattern is outside this fragment and is not used.
\<close>

definition is_literal :: "char \<Rightarrow> bool" where
  "is_literal c =
     (c \<in> set ''abcdefghijklmnopqrstuvwxyzABCDEFGHIJKLMNOPQRSTUVWXYZ0123456789/'')"

definition fragment_Compile :: "string \<Rightarrow> string + string" where
  "fragment_Compile pat =
     (if list_all is_literal pat then Inr pat
      else if pat = ''('' then Inl ''error parsing regexp: missing closing ): (''
      else Inl ''outside the fragment'')"

definition regexp_fragment :: "string regexp" where
  "regexp_fragment = \<lparr>Compile = fragment_Compile, MatchString = (\<lambda>re s. sublist re s)\<rparr>"

section \<open>corporal/hook/hook.go\<close>

definition EventTypeBeforeAnyRequest :: string where
  "EventTypeBeforeAnyRequest = ''beforeAnyRequest''"

definition EventTypeBeforeAuthenticatedPolicyCheckedRequest :: string where
  "EventTypeBeforeAuthenticatedPolicyCheckedRequest = ''beforeAuthenticatedPolicyCheckedRequest''"

definition knownEventTypes :: "string list" where
  "knownEventTypes =
     [EventTypeBeforeAnyRequest, EventTypeBeforeAuthenticatedPolicyCheckedRequest]"

definition ActionConsultRESTServiceURL :: string where
  "ActionConsultRESTServiceURL = ''consult.RESTServiceURL''"

definition ActionRespond :: string where
  "ActionRespond = ''respond''"

definition ActionReject :: string where
  "ActionReject = ''reject''"

definition ActionPassUnmodified :: string where
  "ActionPassUnmodified = ''pass.unmodified''"

definition ActionPassInjectJSONIntoResponse :: string where
  "ActionPassInjectJSONIntoResponse = ''pass.injectJSONIntoResponse''"

definition knownActions :: "string list" where
  "knownActions =
     [ActionConsultRESTServiceURL, ActionRespond, ActionReject, ActionPassUnmodified,
      ActionPassInjectJSONIntoResponse]"

text \<open>
  JSON values, as far as the payload fields and the error envelope need them
  (\<^verbatim>\<open>interface{}\<close> in the source).
\<close>

datatype json = JNull | JString string | JObject "(string \<times> json) list"

record restActionHookDetails =
  RESTServiceURL :: "string option"
  RESTServiceRequestMethod :: "string option"
  RESTServiceRequestTimeoutMilliseconds :: "int option"
  RESTServiceRequestHeaders :: "(string \<times> string) list option"

record respondActionHookDetails =
  ResponsePayload :: json
  ResponseSkipPayloadJSONSerialization :: bool
  ResponseStatusCode :: "int option"
  ResponseContentType :: "string option"

record rejectActionHookDetails =
  RejectionErrorCode :: "string option"
  RejectionErrorMessage :: "string option"

record passInjectJSONIntoResponseActionHookDetails =
  InjectJSONIntoResponse :: "(string \<times> json) list option"
  InjectHeadersIntoResponse :: "(string \<times> string) list option"

text \<open>
  The struct \<^verbatim>\<open>Hook\<close>. A nil pointer is \<open>None\<close>. The four embedded structs are
  fields holding their records.
\<close>

record 'r Hook =
  ID :: string
  EventType :: string
  RouteMatchesRegex :: "string option"
  RouteMatchesRegexCompiled :: "'r option"
  MethodMatchesRegex :: "string option"
  MethodMatchesRegexCompiled :: "'r option"
  Action :: string
  restDetails :: restActionHookDetails
  respondDetails :: respondActionHookDetails
  rejectDetails :: rejectActionHookDetails
  passInjectDetails :: passInjectJSONIntoResponseActionHookDetails

text \<open>
  Modelled from the spec: \<^verbatim>\<open>util.IsStringInArray\<close> is declared in the util package,
  outside the files at hand. Section 3 reads "eventType in known phase set; action in
  known action set": membership in the list.
\<close>

definition IsStringInArray :: "string \<Rightarrow> string list \<Rightarrow> bool" where
  "IsStringInArray s arr = (s \<in> set arr)"

text \<open>
  Only the method and the request target of \<^verbatim>\<open>*http.Request\<close> are read by the hook
  model.
\<close>

record Request =
  Method :: string
  RequestURI :: string

subsection \<open>Receivers and the store\<close>

text \<open>
  \<^verbatim>\<open>ensureInitialized\<close> has a pointer receiver and assigns to the fields of the Hook
  it points to; \<^verbatim>\<open>Validate\<close> and \<^verbatim>\<open>MatchesRequest\<close> have value receivers, so Go
  copies the Hook they are called on into a fresh variable \<^verbatim>\<open>me\<close> of the callee and
  passes \<^verbatim>\<open>&me\<close> on. What a caller sees afterwards depends on this aliasing, so the
  Hook variables live in an explicit store: a list of Hooks, a pointer being an index
  into it. A call with a value receiver appends the copy at index \<open>length \<sigma>\<close> and
  drops it again when it returns (\<open>take\<close>).
\<close>

type_synonym 'r store = "'r Hook list"

text \<open>The second \<^verbatim>\<open>if\<close> block of \<^verbatim>\<open>ensureInitialized\<close> (MethodMatchesRegex).\<close>

definition ensureInitialized_method ::
  "'r regexp \<Rightarrow> nat \<Rightarrow> 'r store \<Rightarrow> string option \<times> 'r store" where
  "ensureInitialized_method L me \<sigma> =
     (case MethodMatchesRegex (\<sigma> ! me) of
        None \<Rightarrow> (None, \<sigma>)
      | Some pat \<Rightarrow>
          (case Compile L pat of
             Inl err \<Rightarrow> (Some err, \<sigma>)
           | Inr regex \<Rightarrow>
               (None, \<sigma>[me := (\<sigma> ! me)\<lparr>MethodMatchesRegexCompiled := Some regex\<rparr>])))"

text \<open>
  \<^verbatim>\<open>func (me *Hook) ensureInitialized() error\<close>: the result is the error (\<open>None\<close> is
  nil) and the store after the assignments. It is unexported and only called with the
  address of a live variable, \<open>me < length \<sigma>\<close>.
\<close>

definition ensureInitialized ::
  "'r regexp \<Rightarrow> nat \<Rightarrow> 'r store \<Rightarrow> string option \<times> 'r store" where
  "ensureInitialized L me \<sigma> =
     (case RouteMatchesRegex (\<sigma> ! me) of
        None \<Rightarrow> ensureInitialized_method L me \<sigma>
      | Some pat \<Rightarrow>
          (case Compile L pat of
             Inl err \<Rightarrow> (Some err, \<sigma>)
           | Inr regex \<Rightarrow>
               ensureInitialized_method L me
                 (\<sigma>[me := (\<sigma> ! me)\<lparr>RouteMatchesRegexCompiled := Some regex\<rparr>])))"

text \<open>
  \<^verbatim>\<open>func (me Hook) Validate() error\<close>, called on the Hook value \<open>h\<close> in the store
  \<open>\<sigma>\<close>: the error (\<open>None\<close> is nil) and the store the caller sees afterwards.
  \<^verbatim>\<open>fmt.Errorf\<close> with \<^verbatim>\<open>%s\<close> verbs is concatenation.
\<close>

definition Validate :: "'r regexp \<Rightarrow> 'r Hook \<Rightarrow> 'r store \<Rightarrow> string option \<times> 'r store" where
  "Validate L h \<sigma> =
     (let me = length \<sigma>; \<sigma>0 = \<sigma> @ [h] in
      if ID (\<sigma>0 ! me) = [] then (Some ''Hook has no id'', take me \<sigma>0)
      else if \<not> IsStringInArray (EventType (\<sigma>0 ! me)) knownEventTypes then
        (Some (EventType (\<sigma>0 ! me) @ '' is an invalid event type for hook #'' @ ID (\<sigma>0 ! me)),
         take me \<sigma>0)
      else if \<not> IsStringInArray (Action (\<sigma>0 ! me)) knownActions then
        (Some (Action (\<sigma>0 ! me) @ '' is an invalid action for hook #'' @ ID (\<sigma>0 ! me)),
         take me \<sigma>0)
      else
        (case ensureInitialized L me \<sigma>0 of
           (Some err, \<sigma>1) \<Rightarrow>
             (Some (''Error when initializing hook #'' @ ID (\<sigma>1 ! me) @ '': '' @ err),
              take me \<sigma>1)
         | (None, \<sigma>1) \<Rightarrow> (None, take me \<sigma>1)))"

text \<open>
  \<^verbatim>\<open>func (me Hook) MatchesRequest(request *http.Request) bool\<close>: \<open>Inl err\<close> is
  \<^verbatim>\<open>panic(err)\<close>, \<open>Inr b\<close> the boolean returned; the second component is the store the
  caller sees afterwards.
\<close>

definition MatchesRequest ::
  "'r regexp \<Rightarrow> 'r Hook \<Rightarrow> Request \<Rightarrow> 'r store \<Rightarrow> (string + bool) \<times> 'r store" where
  "MatchesRequest L h request \<sigma> =
     (let me = length \<sigma>; \<sigma>0 = \<sigma> @ [h] in
      case ensureInitialized L me \<sigma>0 of
        (Some err, \<sigma>1) \<Rightarrow> (Inl err, take me \<sigma>1)
      | (None, \<sigma>1) \<Rightarrow>
          (if (case MethodMatchesRegexCompiled (\<sigma>1 ! me) of
                 None \<Rightarrow> False
               | Some re \<Rightarrow> \<not> MatchString L re (Method request))
           then (Inr False, take me \<sigma>1)
           else if (case RouteMatchesRegexCompiled (\<sigma>1 ! me) of
                      None \<Rightarrow> False
                    | Some re \<Rightarrow> \<not> MatchString L re (RequestURI request))
           then (Inr False, take me \<sigma>1)
           else (Inr True, take me \<sigma>1)))"

text \<open>The zero value of \<^verbatim>\<open>Hook\<close>: every string empty, every pointer nil.\<close>

definition zero_Hook :: "'r Hook" where
  "zero_Hook =
     \<lparr>ID = [], EventType = [], RouteMatchesRegex = None, RouteMatchesRegexCompiled = None,
      MethodMatchesRegex = None, MethodMatchesRegexCompiled = None, Action = [],
      restDetails = \<lparr>RESTServiceURL = None, RESTServiceRequestMethod = None,
        RESTServiceRequestTimeoutMilliseconds = None, RESTServiceRequestHeaders = None\<rparr>,
      respondDetails = \<lparr>ResponsePayload = JNull, ResponseSkipPayloadJSONSerialization = False,
        ResponseStatusCode = None, ResponseContentType = None\<rparr>,
      rejectDetails = \<lparr>RejectionErrorCode = None, RejectionErrorMessage = None\<rparr>,
      passInjectDetails = \<lparr>InjectJSONIntoResponse = None, InjectHeadersIntoResponse = None\<rparr>\<rparr>"

subsection \<open>Vocabulary of the properties\<close>

text \<open>A pattern compiles when \<^verbatim>\<open>regexp.Compile\<close> returns no error for it.\<close>

definition compiles :: "'r regexp \<Rightarrow> string \<Rightarrow> bool" where
  "compiles L pat = (case Compile L pat of Inl err \<Rightarrow> False | Inr regex \<Rightarrow> True)"

text \<open>
  The matcher one dimension of a request is tested against: compiled from the pattern
  where the pattern is present, the content of the \<^verbatim>\<open>...Compiled\<close> field where it is
  nil.
\<close>

definition matcher_in_use :: "'r regexp \<Rightarrow> string option \<Rightarrow> 'r option \<Rightarrow> 'r option" where
  "matcher_in_use L pattern compiled =
     (case pattern of
        None \<Rightarrow> compiled
      | Some pat \<Rightarrow> (case Compile L pat of Inl err \<Rightarrow> None | Inr regex \<Rightarrow> Some regex))"

section \<open>corporal/httpgateway/handler/login.go\<close>

text \<open>
  Modelled from the spec: the constants \<^verbatim>\<open>hook.EventTypeBeforeUnauthenticatedRequest\<close>,
  \<^verbatim>\<open>hook.EventTypeAfterAnyRequest\<close> and \<^verbatim>\<open>hook.EventTypeAfterUnauthenticatedRequest\<close>
  are used by login.go and not declared in hook.go. Section 3 names the phases
  before-unauthenticated, after-any and after-unauthenticated; the values follow the
  spelling of the two constants hook.go declares.
\<close>

definition EventTypeBeforeUnauthenticatedRequest :: string where
  "EventTypeBeforeUnauthenticatedRequest = ''beforeUnauthenticatedRequest''"

definition EventTypeAfterAnyRequest :: string where
  "EventTypeAfterAnyRequest = ''afterAnyRequest''"

definition EventTypeAfterUnauthenticatedRequest :: string where
  "EventTypeAfterUnauthenticatedRequest = ''afterUnauthenticatedRequest''"

text \<open>
  An HTTP response, and \<^verbatim>\<open>http.ResponseWriter\<close> as the responses written to the
  client so far, in order.
\<close>

datatype body = JSON json | Bytes string

record Response =
  StatusCode :: nat
  Header :: "(string \<times> string) list"
  Body :: body

type_synonym ResponseWriter = "Response list"

text \<open>
  Modelled from the spec: \<^verbatim>\<open>hook.HttpResponseModifierFunc\<close> and
  \<^verbatim>\<open>hook.CreateChainedHttpResponseModifierFunc\<close> are declared in the hook package,
  outside the files at hand. Section 9 reads "an explicit ordered list of (body,
  headers) -> (body, headers) transforms, applied strictly after the upstream response
  is received, supporting zero transforms (identity) and N transforms (applied in queue
  order)".
\<close>

type_synonym HttpResponseModifierFunc = "Response \<Rightarrow> Response"

definition CreateChainedHttpResponseModifierFunc ::
  "HttpResponseModifierFunc list \<Rightarrow> HttpResponseModifierFunc" where
  "CreateChainedHttpResponseModifierFunc funcs = (\<lambda>response. fold (\<lambda>f resp. f resp) funcs response)"

text \<open>
  \<^verbatim>\<open>httputil.ReverseProxy\<close> belongs to Go's standard library. \<open>Upstream\<close> is the
  answer of the homeserver to the forwarded request; \<^verbatim>\<open>ServeHTTP\<close> forwards the request,
  runs \<^verbatim>\<open>ModifyResponse\<close> on the answer when the field is not nil, and writes the
  result to the client.
\<close>

record ReverseProxy =
  Upstream :: "Request \<Rightarrow> Response"
  ModifyResponse :: "HttpResponseModifierFunc option"

definition ServeHTTP :: "ReverseProxy \<Rightarrow> ResponseWriter \<Rightarrow> Request \<Rightarrow> ResponseWriter" where
  "ServeHTTP proxy w r =
     w @ [case ModifyResponse proxy of
            None \<Rightarrow> Upstream proxy r
          | Some modify \<Rightarrow> modify (Upstream proxy r)]"

text \<open>
  Modelled from the spec: the interceptor package is outside the files at hand.
  Section 4.3 reads "returns exactly one of Deny(status, errorCode, errorMessage) or
  Proxy. Any other value is a configuration/programming invariant violation".
  \<open>InterceptorResultOther\<close> stands for any other value of the \<^verbatim>\<open>Result\<close> field;
  \<open>Status\<close> is the status the spec gives a Deny. login.go reads \<^verbatim>\<open>Result\<close>,
  \<^verbatim>\<open>LoggingContextFields\<close>, \<^verbatim>\<open>ErrorCode\<close> and \<^verbatim>\<open>ErrorMessage\<close>.
\<close>

datatype InterceptorResult =
  InterceptorResultDeny | InterceptorResultProxy | InterceptorResultOther string

record InterceptorResponse =
  Result :: InterceptorResult
  Status :: nat
  ErrorCode :: string
  ErrorMessage :: string
  LoggingContextFields :: "(string \<times> string) list"

text \<open>
  Modelled from the spec: \<^verbatim>\<open>httphelp.RespondWithMatrixError\<close> is declared in the
  httphelp package, outside the files at hand. Section 6 reads "JSON body {"errcode":
  <ErrorCode>, "error": <ErrorMessage>}, Content-Type: application/json", with the
  status it is given.
\<close>

definition RespondWithMatrixError ::
  "ResponseWriter \<Rightarrow> nat \<Rightarrow> string \<Rightarrow> string \<Rightarrow> ResponseWriter" where
  "RespondWithMatrixError w httpStatusCode errorCode errorMessage =
     w @ [\<lparr>StatusCode = httpStatusCode,
           Header = [(''Content-Type'', ''application/json'')],
           Body = JSON (JObject [(''errcode'', JString errorCode),
                                 (''error'', JString errorMessage)])\<rparr>]"

text \<open>\<^verbatim>\<open>http.StatusForbidden\<close> of the standard library.\<close>

definition StatusForbidden :: nat where
  "StatusForbidden = 403"

text \<open>
  The struct \<^verbatim>\<open>loginHandler\<close>. The interceptor is its \<^verbatim>\<open>Intercept\<close> method; the
  logger only logs until \<^verbatim>\<open>Fatalf\<close>, which is an outcome of the handler below.
\<close>

record 'hr loginHandler =
  reverseProxy :: ReverseProxy
  hookRunner :: 'hr
  loginInterceptor :: "Request \<Rightarrow> InterceptorResponse"

text \<open>
  \<^verbatim>\<open>runHook\<close> is declared in the handler package, outside the files at hand, and is a
  parameter of the handler: from the hook runner, the event type, the writer, the
  request and the queue behind the pointer \<^verbatim>\<open>&httpResponseModifierFuncs\<close> it gives its
  boolean, the writer and the queue afterwards.
\<close>

type_synonym 'hr runHook =
  "'hr \<Rightarrow> string \<Rightarrow> ResponseWriter \<Rightarrow> Request \<Rightarrow> HttpResponseModifierFunc list \<Rightarrow>
   bool \<times> ResponseWriter \<times> HttpResponseModifierFunc list"

definition hooksToRun :: "string list" where
  "hooksToRun =
     [EventTypeBeforeAnyRequest, EventTypeBeforeUnauthenticatedRequest,
      EventTypeAfterAnyRequest, EventTypeAfterUnauthenticatedRequest]"

text \<open>
  The loop \<^verbatim>\<open>for _, eventType := range hooksToRun\<close>: \<open>False\<close> when a call of
  \<^verbatim>\<open>runHook\<close> returned false and the handler returns at once.
\<close>

fun runHooks ::
  "'hr runHook \<Rightarrow> 'hr \<Rightarrow> string list \<Rightarrow> ResponseWriter \<Rightarrow> Request \<Rightarrow>
   HttpResponseModifierFunc list \<Rightarrow> bool \<times> ResponseWriter \<times> HttpResponseModifierFunc list" where
  "runHooks runHook hr [] w r funcs = (True, w, funcs)"
| "runHooks runHook hr (eventType # rest) w r funcs =
     (case runHook hr eventType w r funcs of
        (ok, w', funcs') \<Rightarrow>
          if \<not> ok then (False, w', funcs') else runHooks runHook hr rest w' r funcs')"

text \<open>
  What a call of the handler function ends in: it returns, with the writer as it left
  it, or \<^verbatim>\<open>logger.Fatalf\<close> logs and ends the process (logrus calls \<^verbatim>\<open>os.Exit(1)\<close>
  after a log entry of level Fatal).
\<close>

datatype outcome = Returned ResponseWriter | ProcessExited ResponseWriter

text \<open>
  The function returned by \<^verbatim>\<open>createInterceptorHandler(name, interceptorObj)\<close>, applied
  to the writer \<open>w\<close> and the request \<open>r\<close>.
\<close>

definition createInterceptorHandler ::
  "'hr runHook \<Rightarrow> 'hr loginHandler \<Rightarrow> string \<Rightarrow> (Request \<Rightarrow> InterceptorResponse) \<Rightarrow>
   ResponseWriter \<Rightarrow> Request \<Rightarrow> outcome" where
  "createInterceptorHandler runHook me name interceptorObj w r =
     (case runHooks runHook (hookRunner me) hooksToRun w r [] of
        (ok, w', httpResponseModifierFuncs) \<Rightarrow>
          if \<not> ok then Returned w'
          else
            (let interceptorResult = interceptorObj r in
             if Result interceptorResult = InterceptorResultDeny then
               Returned (RespondWithMatrixError w' StatusForbidden
                           (ErrorCode interceptorResult) (ErrorMessage interceptorResult))
             else if Result interceptorResult = InterceptorResultProxy then
               (let reverseProxyToUse =
                      (if length httpResponseModifierFuncs = 0 then reverseProxy me
                       else (reverseProxy me)
                              \<lparr>ModifyResponse :=
                                 Some (CreateChainedHttpResponseModifierFunc
                                         httpResponseModifierFuncs)\<rparr>)
                in Returned (ServeHTTP reverseProxyToUse w' r))
             else ProcessExited w'))"

section \<open>Concrete values\<close>

text \<open>
  A login request, a reverse proxy whose upstream answers 200 with an empty JSON object,
  an interceptor answering with a given result, a handler built from them, and two
  stand-ins for \<^verbatim>\<open>runHook\<close>: a policy with no hook, and a policy whose two after
  phases each queue one response modifier that prepends a header.
\<close>

definition example_request :: Request where
  "example_request = \<lparr>Method = ''POST'', RequestURI = ''/_matrix/client/r0/login''\<rparr>"

definition example_proxy :: ReverseProxy where
  "example_proxy =
     \<lparr>Upstream = (\<lambda>r. \<lparr>StatusCode = 200, Header = [], Body = Bytes ''{}''\<rparr>),
      ModifyResponse = None\<rparr>"

definition example_interceptor :: "InterceptorResult \<Rightarrow> Request \<Rightarrow> InterceptorResponse" where
  "example_interceptor res r =
     \<lparr>Result = res, Status = 401, ErrorCode = ''M_FORBIDDEN'', ErrorMessage = ''Denied'',
      LoggingContextFields = []\<rparr>"

definition example_handler :: "InterceptorResult \<Rightarrow> unit loginHandler" where
  "example_handler res =
     \<lparr>reverseProxy = example_proxy, hookRunner = (), loginInterceptor = example_interceptor res\<rparr>"

definition add_header :: "string \<Rightarrow> HttpResponseModifierFunc" where
  "add_header k = (\<lambda>response. response\<lparr>Header := (k, ''1'') # Header response\<rparr>)"

definition runHook_none :: "unit runHook" where
  "runHook_none hr eventType w r funcs = (True, w, funcs)"

definition runHook_inject :: "unit runHook" where
  "runHook_inject hr eventType w r funcs =
     (if eventType = EventTypeAfterAnyRequest then (True, w, funcs @ [add_header ''X-First''])
      else if eventType = EventTypeAfterUnauthenticatedRequest then
        (True, w, funcs @ [add_header ''X-Second''])
      else (True, w, funcs))"

section \<open>Properties of the hook model\<close>

subsection \<open>Calls on a receiver copy\<close>

lemma ensureInitialized_method_local:
  "ensureInitialized_method L (length \<sigma>) (\<sigma> @ [h]) =
     (case MethodMatchesRegex h of
        None \<Rightarrow> (None, \<sigma> @ [h])
      | Some pat \<Rightarrow>
          (case Compile L pat of
             Inl err \<Rightarrow> (Some err, \<sigma> @ [h])
           | Inr regex \<Rightarrow> (None, \<sigma> @ [h\<lparr>MethodMatchesRegexCompiled := Some regex\<rparr>])))"
  by (simp add: ensureInitialized_method_def split: option.splits sum.splits)

lemma ensureInitialized_local:
  "ensureInitialized L (length \<sigma>) (\<sigma> @ [h]) =
     (case RouteMatchesRegex h of
        None \<Rightarrow> ensureInitialized_method L (length \<sigma>) (\<sigma> @ [h])
      | Some pat \<Rightarrow>
          (case Compile L pat of
             Inl err \<Rightarrow> (Some err, \<sigma> @ [h])
           | Inr regex \<Rightarrow>
               ensureInitialized_method L (length \<sigma>)
                 (\<sigma> @ [h\<lparr>RouteMatchesRegexCompiled := Some regex\<rparr>])))"
  by (simp add: ensureInitialized_def split: option.splits sum.splits)

lemma Validate_store: "snd (Validate L h \<sigma>) = \<sigma>"
  by (simp add: Validate_def Let_def ensureInitialized_local ensureInitialized_method_local
      split: option.splits sum.splits prod.splits)

lemma MatchesRequest_store: "snd (MatchesRequest L h request \<sigma>) = \<sigma>"
  by (simp add: MatchesRequest_def Let_def ensureInitialized_local ensureInitialized_method_local
      split: option.splits sum.splits prod.splits)

lemma Validate_result:
  "fst (Validate L h \<sigma>) =
     (if ID h = [] then Some ''Hook has no id''
      else if EventType h \<notin> set knownEventTypes then
        Some (EventType h @ '' is an invalid event type for hook #'' @ ID h)
      else if Action h \<notin> set knownActions then
        Some (Action h @ '' is an invalid action for hook #'' @ ID h)
      else
        (case fst (ensureInitialized L (length \<sigma>) (\<sigma> @ [h])) of
           Some err \<Rightarrow> Some (''Error when initializing hook #'' @ ID h @ '': '' @ err)
         | None \<Rightarrow> None))"
  by (simp add: Validate_def Let_def IsStringInArray_def
      ensureInitialized_local ensureInitialized_method_local
      split: option.splits sum.splits prod.splits)

lemma ensureInitialized_nil_iff:
  "(fst (ensureInitialized L (length \<sigma>) (\<sigma> @ [h])) = None) =
     ((case RouteMatchesRegex h of None \<Rightarrow> True | Some pat \<Rightarrow> compiles L pat) \<and>
      (case MethodMatchesRegex h of None \<Rightarrow> True | Some pat \<Rightarrow> compiles L pat))"
  by (simp add: compiles_def ensureInitialized_local ensureInitialized_method_local
      split: option.splits sum.splits)

lemma Validate_nil_cond:
  "(fst (Validate L h \<sigma>) = None) =
      (ID h \<noteq> [] \<and> EventType h \<in> set knownEventTypes \<and> Action h \<in> set knownActions \<and>
       (case RouteMatchesRegex h of None \<Rightarrow> True | Some pat \<Rightarrow> compiles L pat) \<and>
       (case MethodMatchesRegex h of None \<Rightarrow> True | Some pat \<Rightarrow> compiles L pat))"
proof -
  have "(fst (Validate L h \<sigma>) = None) =
      (ID h \<noteq> [] \<and> EventType h \<in> set knownEventTypes \<and> Action h \<in> set knownActions \<and>
       fst (ensureInitialized L (length \<sigma>) (\<sigma> @ [h])) = None)"
    by (simp add: Validate_result split: option.splits)
  then show ?thesis
    by (simp only: ensureInitialized_nil_iff)
qed

lemma Validate_nil_initialized:
  "fst (Validate L h \<sigma>) = None \<Longrightarrow> fst (ensureInitialized L (length \<sigma>) (\<sigma> @ [h])) = None"
  by (simp add: Validate_result split: if_splits option.splits)

lemma MatchesRequest_result:
  "fst (ensureInitialized L (length \<sigma>) (\<sigma> @ [h])) = None \<Longrightarrow>
   fst (MatchesRequest L h request \<sigma>) =
     Inr ((case matcher_in_use L (MethodMatchesRegex h) (MethodMatchesRegexCompiled h) of
             None \<Rightarrow> True | Some re \<Rightarrow> MatchString L re (Method request)) \<and>
          (case matcher_in_use L (RouteMatchesRegex h) (RouteMatchesRegexCompiled h) of
             None \<Rightarrow> True | Some re \<Rightarrow> MatchString L re (RequestURI request)))"
  by (auto simp: MatchesRequest_def Let_def matcher_in_use_def
      ensureInitialized_local ensureInitialized_method_local
      split: option.splits sum.splits prod.splits)

lemma MatchesRequest_panic:
  "fst (ensureInitialized L (length \<sigma>) (\<sigma> @ [h])) = Some err \<Longrightarrow>
   fst (MatchesRequest L h request \<sigma>) = Inl err"
  by (auto simp: MatchesRequest_def Let_def split: option.splits prod.splits)

subsection \<open>The hook id in the error texts\<close>

lemma sublist_hook_id1: "sublist (''hook #'' @ i) (e @ '' is an invalid event type for hook #'' @ i)"
proof -
  have "e @ '' is an invalid event type for hook #'' @ i
      = (e @ '' is an invalid event type for '') @ (''hook #'' @ i) @ []" by simp
  then show ?thesis unfolding sublist_def by blast
qed

lemma sublist_hook_id2: "sublist (''hook #'' @ i) (a @ '' is an invalid action for hook #'' @ i)"
proof -
  have "a @ '' is an invalid action for hook #'' @ i
      = (a @ '' is an invalid action for '') @ (''hook #'' @ i) @ []" by simp
  then show ?thesis unfolding sublist_def by blast
qed

lemma sublist_hook_id3: "sublist (''hook #'' @ i) (''Error when initializing hook #'' @ i @ '': '' @ err)"
proof -
  have "''Error when initializing hook #'' @ i @ '': '' @ err
      = ''Error when initializing '' @ (''hook #'' @ i) @ ('': '' @ err)" by simp
  then show ?thesis unfolding sublist_def by blast
qed

lemma sublist_drop_prefix: "sublist (p @ i) e \<Longrightarrow> sublist i e"
  unfolding sublist_def by (metis append.assoc)

subsection \<open>Validation\<close>

text \<open>
  C5: for every Hook, \<^verbatim>\<open>Validate()\<close> returns nil if and only if the id is not empty,
  the event type is in the known event types, the action is in the known actions, and
  every present regex (route, method) compiles; and whenever it returns an error, the
  error names the hook's id: the id occurs in the text, after \<^verbatim>\<open>hook #\<close> when the id is
  not empty, and the text is \<^verbatim>\<open>Hook has no id\<close> when it is.
\<close>

theorem Validate_nil_iff:
  "((fst (Validate L h \<sigma>) = None) =
      (ID h \<noteq> [] \<and> EventType h \<in> set knownEventTypes \<and> Action h \<in> set knownActions \<and>
       (case RouteMatchesRegex h of None \<Rightarrow> True | Some pat \<Rightarrow> compiles L pat) \<and>
       (case MethodMatchesRegex h of None \<Rightarrow> True | Some pat \<Rightarrow> compiles L pat))) \<and>
   (\<forall>err. fst (Validate L h \<sigma>) = Some err \<longrightarrow>
      sublist (ID h) err \<and>
      (if ID h = [] then err = ''Hook has no id'' else sublist (''hook #'' @ ID h) err))"
proof (intro conjI allI impI)
  show "(fst (Validate L h \<sigma>) = None) =
      (ID h \<noteq> [] \<and> EventType h \<in> set knownEventTypes \<and> Action h \<in> set knownActions \<and>
       (case RouteMatchesRegex h of None \<Rightarrow> True | Some pat \<Rightarrow> compiles L pat) \<and>
       (case MethodMatchesRegex h of None \<Rightarrow> True | Some pat \<Rightarrow> compiles L pat))"
    by (rule Validate_nil_cond)
next
  fix err
  assume e: "fst (Validate L h \<sigma>) = Some err"
  show named: "if ID h = [] then err = ''Hook has no id'' else sublist (''hook #'' @ ID h) err"
    using e sublist_hook_id1 [of "ID h" "EventType h"] sublist_hook_id2 [of "ID h" "Action h"]
      sublist_hook_id3 [of "ID h"]
    by (auto simp: Validate_result split: if_splits option.splits)
  show "sublist (ID h) err"
  proof (cases "ID h = []")
    case True
    then show ?thesis by simp
  next
    case False
    with named have "sublist (''hook #'' @ ID h) err" by simp
    then show ?thesis by (rule sublist_drop_prefix)
  qed
qed

theorem Validate_nil_iff_witness:
  "fst (Validate regexp_fragment
          (zero_Hook\<lparr>ID := ''h'', EventType := ''beforeAnyRequest'', Action := ''reject'',
             MethodMatchesRegex := Some ''(''\<rparr>) []) =
     Some ''Error when initializing hook #h: error parsing regexp: missing closing ): ('' \<and>
   sublist ''hook #h''
     ''Error when initializing hook #h: error parsing regexp: missing closing ): (''"
proof -
  have v: "fst (Validate regexp_fragment
          (zero_Hook\<lparr>ID := ''h'', EventType := ''beforeAnyRequest'', Action := ''reject'',
             MethodMatchesRegex := Some ''(''\<rparr>) []) =
     Some ''Error when initializing hook #h: error parsing regexp: missing closing ): (''"
    by (simp add: Validate_def Let_def ensureInitialized_def ensureInitialized_method_def
        IsStringInArray_def zero_Hook_def regexp_fragment_def fragment_Compile_def is_literal_def
        knownEventTypes_def knownActions_def EventTypeBeforeAnyRequest_def ActionReject_def)
  from Validate_nil_iff [of regexp_fragment
          "zero_Hook\<lparr>ID := ''h'', EventType := ''beforeAnyRequest'', Action := ''reject'',
             MethodMatchesRegex := Some ''(''\<rparr>" "[]"] v
  have "sublist ''hook #h''
     ''Error when initializing hook #h: error parsing regexp: missing closing ): (''"
    by (simp add: zero_Hook_def)
  with v show ?thesis by simp
qed

text \<open>
  C4: the login handler runs the phases before-unauthenticated, after-any and
  after-unauthenticated, and the claim lets \<^verbatim>\<open>Validate()\<close> accept a hook declared with
  any of them. The known event types are the two that hook.go lists, so \<^verbatim>\<open>Validate()\<close>
  rejects a hook of each of the three phases, whatever the regexp package and the store.
\<close>

theorem Validate_rejects_phases_run:
  "EventTypeBeforeUnauthenticatedRequest \<in> set hooksToRun \<and>
   EventTypeAfterAnyRequest \<in> set hooksToRun \<and>
   EventTypeAfterUnauthenticatedRequest \<in> set hooksToRun \<and>
   fst (Validate L (zero_Hook\<lparr>ID := ''h'', EventType := EventTypeBeforeUnauthenticatedRequest,
                      Action := ActionPassUnmodified\<rparr>) \<sigma>) =
     Some ''beforeUnauthenticatedRequest is an invalid event type for hook #h'' \<and>
   fst (Validate L (zero_Hook\<lparr>ID := ''h'', EventType := EventTypeAfterAnyRequest,
                      Action := ActionPassUnmodified\<rparr>) \<sigma>) =
     Some ''afterAnyRequest is an invalid event type for hook #h'' \<and>
   fst (Validate L (zero_Hook\<lparr>ID := ''h'', EventType := EventTypeAfterUnauthenticatedRequest,
                      Action := ActionPassUnmodified\<rparr>) \<sigma>) =
     Some ''afterUnauthenticatedRequest is an invalid event type for hook #h''"
  by (simp add: Validate_result hooksToRun_def zero_Hook_def knownEventTypes_def
      EventTypeBeforeAnyRequest_def EventTypeBeforeAuthenticatedPolicyCheckedRequest_def
      EventTypeBeforeUnauthenticatedRequest_def EventTypeAfterAnyRequest_def
      EventTypeAfterUnauthenticatedRequest_def)

subsection \<open>Matching\<close>




text \<open>
  The claim C6 makes a nil regex a wildcard for every validated Hook. A Hook whose
  method regex is nil and whose \<^verbatim>\<open>MethodMatchesRegexCompiled\<close> field holds a matcher
  compiled from \<^verbatim>\<open>POST\<close> passes validation and does not match a GET request.
\<close>

theorem MatchesRequest_stale_matcher_counterexample:
  "fst (Validate regexp_fragment
          (zero_Hook\<lparr>ID := ''h'', EventType := ''beforeAnyRequest'', Action := ''reject'',
             MethodMatchesRegexCompiled := Some ''POST''\<rparr>) []) = None \<and>
   MethodMatchesRegex (zero_Hook\<lparr>ID := ''h'', EventType := ''beforeAnyRequest'', Action := ''reject'',
             MethodMatchesRegexCompiled := Some ''POST''\<rparr> :: string Hook) = None \<and>
   RouteMatchesRegex (zero_Hook\<lparr>ID := ''h'', EventType := ''beforeAnyRequest'', Action := ''reject'',
             MethodMatchesRegexCompiled := Some ''POST''\<rparr> :: string Hook) = None \<and>
   fst (MatchesRequest regexp_fragment
          (zero_Hook\<lparr>ID := ''h'', EventType := ''beforeAnyRequest'', Action := ''reject'',
             MethodMatchesRegexCompiled := Some ''POST''\<rparr>)
          \<lparr>Method = ''GET'', RequestURI = ''/login''\<rparr> []) = Inr False"
  by (simp add: Validate_def MatchesRequest_def Let_def ensureInitialized_def ensureInitialized_method_def
      zero_Hook_def regexp_fragment_def fragment_Compile_def is_literal_def knownEventTypes_def IsStringInArray_def
      knownActions_def EventTypeBeforeAnyRequest_def ActionReject_def EventTypeBeforeAuthenticatedPolicyCheckedRequest_def
      ActionConsultRESTServiceURL_def ActionRespond_def ActionPassUnmodified_def ActionPassInjectJSONIntoResponse_def
      sublist_Cons_right)

text \<open>
  C6, amended: for every Hook on which \<^verbatim>\<open>Validate()\<close> returns nil and whose
  \<^verbatim>\<open>...Compiled\<close> field is nil wherever the regex of that dimension is nil, and for every
  request, \<^verbatim>\<open>MatchesRequest\<close> returns true if and only if the method regex is nil or,
  compiled, matches the request method, and the route regex is nil or, compiled,
  matches the request target.
\<close>

theorem MatchesRequest_iff:
  assumes "fst (Validate L h \<sigma>) = None"
    and "MethodMatchesRegex h = None \<Longrightarrow> MethodMatchesRegexCompiled h = None"
    and "RouteMatchesRegex h = None \<Longrightarrow> RouteMatchesRegexCompiled h = None"
  shows "fst (MatchesRequest L h request \<sigma>) =
           Inr ((case MethodMatchesRegex h of
                   None \<Rightarrow> True
                 | Some pat \<Rightarrow> (\<exists>re. Compile L pat = Inr re \<and> MatchString L re (Method request))) \<and>
                (case RouteMatchesRegex h of
                   None \<Rightarrow> True
                 | Some pat \<Rightarrow> (\<exists>re. Compile L pat = Inr re \<and> MatchString L re (RequestURI request))))"
proof -
  from assms(1) have i: "fst (ensureInitialized L (length \<sigma>) (\<sigma> @ [h])) = None"
    by (rule Validate_nil_initialized)
  from assms(1) have c: "(case RouteMatchesRegex h of None \<Rightarrow> True | Some pat \<Rightarrow> compiles L pat)"
    "(case MethodMatchesRegex h of None \<Rightarrow> True | Some pat \<Rightarrow> compiles L pat)"
    by (simp_all add: Validate_nil_cond)
  have m: "(case matcher_in_use L (MethodMatchesRegex h) (MethodMatchesRegexCompiled h) of
                   None \<Rightarrow> True | Some re \<Rightarrow> MatchString L re (Method request)) =
        (case MethodMatchesRegex h of
                   None \<Rightarrow> True
                 | Some pat \<Rightarrow> (\<exists>re. Compile L pat = Inr re \<and> MatchString L re (Method request)))"
    using c(2) assms(2)
    by (auto simp: matcher_in_use_def compiles_def split: option.splits sum.splits)
  have r: "(case matcher_in_use L (RouteMatchesRegex h) (RouteMatchesRegexCompiled h) of
                   None \<Rightarrow> True | Some re \<Rightarrow> MatchString L re (RequestURI request)) =
        (case RouteMatchesRegex h of
                   None \<Rightarrow> True
                 | Some pat \<Rightarrow> (\<exists>re. Compile L pat = Inr re \<and> MatchString L re (RequestURI request)))"
    using c(1) assms(3)
    by (auto simp: matcher_in_use_def compiles_def split: option.splits sum.splits)
  show ?thesis
    by (simp only: MatchesRequest_result [OF i] m r)
qed

theorem MatchesRequest_iff_witness:
  "fst (Validate regexp_fragment
          (zero_Hook\<lparr>ID := ''h'', EventType := ''beforeAnyRequest'', Action := ''reject'',
             MethodMatchesRegex := Some ''POST''\<rparr>) []) = None \<and>
   MethodMatchesRegex (zero_Hook\<lparr>ID := ''h'', EventType := ''beforeAnyRequest'',
     Action := ''reject'', MethodMatchesRegex := Some ''POST''\<rparr> :: string Hook) = Some ''POST'' \<and>
   RouteMatchesRegex (zero_Hook\<lparr>ID := ''h'', EventType := ''beforeAnyRequest'',
     Action := ''reject'', MethodMatchesRegex := Some ''POST''\<rparr> :: string Hook) = None \<and>
   RouteMatchesRegexCompiled (zero_Hook\<lparr>ID := ''h'', EventType := ''beforeAnyRequest'',
     Action := ''reject'', MethodMatchesRegex := Some ''POST''\<rparr> :: string Hook) = None \<and>
   fst (MatchesRequest regexp_fragment
          (zero_Hook\<lparr>ID := ''h'', EventType := ''beforeAnyRequest'', Action := ''reject'',
             MethodMatchesRegex := Some ''POST''\<rparr>)
          \<lparr>Method = ''POST'', RequestURI = ''/login''\<rparr> []) = Inr True \<and>
   fst (MatchesRequest regexp_fragment
          (zero_Hook\<lparr>ID := ''h'', EventType := ''beforeAnyRequest'', Action := ''reject'',
             MethodMatchesRegex := Some ''POST''\<rparr>)
          \<lparr>Method = ''GET'', RequestURI = ''/login''\<rparr> []) = Inr False"
proof -
  have v: "fst (Validate regexp_fragment
          (zero_Hook\<lparr>ID := ''h'', EventType := ''beforeAnyRequest'', Action := ''reject'',
             MethodMatchesRegex := Some ''POST''\<rparr>) []) = None"
    by (simp add: Validate_nil_cond compiles_def zero_Hook_def regexp_fragment_def
        fragment_Compile_def is_literal_def knownEventTypes_def knownActions_def
        EventTypeBeforeAnyRequest_def ActionReject_def)
  have m: "MethodMatchesRegex (zero_Hook\<lparr>ID := ''h'', EventType := ''beforeAnyRequest'',
      Action := ''reject'', MethodMatchesRegex := Some ''POST''\<rparr> :: string Hook) = None \<Longrightarrow>
    MethodMatchesRegexCompiled (zero_Hook\<lparr>ID := ''h'', EventType := ''beforeAnyRequest'',
      Action := ''reject'', MethodMatchesRegex := Some ''POST''\<rparr> :: string Hook) = None"
    by (simp add: zero_Hook_def)
  have r: "RouteMatchesRegex (zero_Hook\<lparr>ID := ''h'', EventType := ''beforeAnyRequest'',
      Action := ''reject'', MethodMatchesRegex := Some ''POST''\<rparr> :: string Hook) = None \<Longrightarrow>
    RouteMatchesRegexCompiled (zero_Hook\<lparr>ID := ''h'', EventType := ''beforeAnyRequest'',
      Action := ''reject'', MethodMatchesRegex := Some ''POST''\<rparr> :: string Hook) = None"
    by (simp add: zero_Hook_def)
  from v MatchesRequest_iff [OF v m r, of "\<lparr>Method = ''POST'', RequestURI = ''/login''\<rparr>"]
    MatchesRequest_iff [OF v m r, of "\<lparr>Method = ''GET'', RequestURI = ''/login''\<rparr>"]
  show ?thesis
    by (simp add: zero_Hook_def regexp_fragment_def fragment_Compile_def is_literal_def
        sublist_Cons_right)
qed

text \<open>
  C9: for every Hook on which \<^verbatim>\<open>Validate()\<close> has returned nil and every request,
  \<^verbatim>\<open>MatchesRequest\<close> returns a boolean and does not panic, leaves the store, and with
  it the Hook of its caller, unchanged, and gives the same answer in every store: it
  reads nothing but its receiver copy and the request.
\<close>

theorem MatchesRequest_total_pure:
  assumes "fst (Validate L h \<sigma>) = None"
  shows "(\<exists>b. fst (MatchesRequest L h request \<sigma>) = Inr b) \<and>
         snd (MatchesRequest L h request \<sigma>) = \<sigma> \<and>
         fst (MatchesRequest L h request \<sigma>') = fst (MatchesRequest L h request \<sigma>)"
proof -
  from assms have i: "fst (ensureInitialized L (length \<sigma>) (\<sigma> @ [h])) = None"
    by (rule Validate_nil_initialized)
  then have "(case RouteMatchesRegex h of None \<Rightarrow> True | Some pat \<Rightarrow> compiles L pat) \<and>
      (case MethodMatchesRegex h of None \<Rightarrow> True | Some pat \<Rightarrow> compiles L pat)"
    by (simp only: ensureInitialized_nil_iff)
  then have i': "fst (ensureInitialized L (length \<sigma>') (\<sigma>' @ [h])) = None"
    by (simp only: ensureInitialized_nil_iff)
  show ?thesis
    by (simp add: MatchesRequest_result [OF i] MatchesRequest_result [OF i'] MatchesRequest_store)
qed

theorem MatchesRequest_total_pure_witness:
  "fst (Validate regexp_fragment
          (zero_Hook\<lparr>ID := ''h'', EventType := ''beforeAnyRequest'', Action := ''reject'',
             RouteMatchesRegex := Some ''/login''\<rparr>) [zero_Hook]) = None \<and>
   (\<forall>request \<sigma>'.
      (\<exists>b. fst (MatchesRequest regexp_fragment
          (zero_Hook\<lparr>ID := ''h'', EventType := ''beforeAnyRequest'', Action := ''reject'',
             RouteMatchesRegex := Some ''/login''\<rparr>) request [zero_Hook]) = Inr b) \<and>
      snd (MatchesRequest regexp_fragment
          (zero_Hook\<lparr>ID := ''h'', EventType := ''beforeAnyRequest'', Action := ''reject'',
             RouteMatchesRegex := Some ''/login''\<rparr>) request [zero_Hook]) = [zero_Hook] \<and>
      fst (MatchesRequest regexp_fragment
          (zero_Hook\<lparr>ID := ''h'', EventType := ''beforeAnyRequest'', Action := ''reject'',
             RouteMatchesRegex := Some ''/login''\<rparr>) request \<sigma>') =
      fst (MatchesRequest regexp_fragment
          (zero_Hook\<lparr>ID := ''h'', EventType := ''beforeAnyRequest'', Action := ''reject'',
             RouteMatchesRegex := Some ''/login''\<rparr>) request [zero_Hook]))"
proof -
  have v: "fst (Validate regexp_fragment
          (zero_Hook\<lparr>ID := ''h'', EventType := ''beforeAnyRequest'', Action := ''reject'',
             RouteMatchesRegex := Some ''/login''\<rparr>) [zero_Hook]) = None"
    by (simp add: Validate_nil_cond compiles_def zero_Hook_def
        regexp_fragment_def fragment_Compile_def is_literal_def knownEventTypes_def
        knownActions_def EventTypeBeforeAnyRequest_def ActionReject_def)
  show ?thesis
    using v MatchesRequest_total_pure [OF v] by blast
qed

text \<open>
  C10: for a Hook with a present regex that does not compile (the route regex, or the
  method regex when the route regex is nil or compiles), \<^verbatim>\<open>MatchesRequest\<close> panics
  with the error of the compilation, for every request and in every store.
\<close>

theorem MatchesRequest_panics_uncompilable:
  assumes "(RouteMatchesRegex h = Some pat \<and> Compile L pat = Inl err) \<or>
           ((case RouteMatchesRegex h of None \<Rightarrow> True | Some p \<Rightarrow> compiles L p) \<and>
            MethodMatchesRegex h = Some pat \<and> Compile L pat = Inl err)"
  shows "fst (MatchesRequest L h request \<sigma>) = Inl err"
proof -
  from assms have "fst (ensureInitialized L (length \<sigma>) (\<sigma> @ [h])) = Some err"
    by (auto simp: compiles_def ensureInitialized_local ensureInitialized_method_local
        split: option.splits sum.splits)
  then show ?thesis by (rule MatchesRequest_panic)
qed

theorem MatchesRequest_panics_uncompilable_witness:
  "RouteMatchesRegex (zero_Hook\<lparr>ID := ''h'', RouteMatchesRegex := Some ''(''\<rparr> :: string Hook)
     = Some ''('' \<and>
   Compile regexp_fragment ''('' = Inl ''error parsing regexp: missing closing ): ('' \<and>
   (\<forall>request \<sigma>.
      fst (MatchesRequest regexp_fragment (zero_Hook\<lparr>ID := ''h'', RouteMatchesRegex := Some ''(''\<rparr>)
             request \<sigma>) = Inl ''error parsing regexp: missing closing ): ('')"
proof -
  have a: "RouteMatchesRegex (zero_Hook\<lparr>ID := ''h'', RouteMatchesRegex := Some ''(''\<rparr> :: string Hook)
     = Some ''(''"
    by simp
  have b: "Compile regexp_fragment ''('' = Inl ''error parsing regexp: missing closing ): (''"
    by (simp add: regexp_fragment_def fragment_Compile_def is_literal_def)
  show ?thesis
    using a b MatchesRequest_panics_uncompilable
      [of "zero_Hook\<lparr>ID := ''h'', RouteMatchesRegex := Some ''(''\<rparr>" "''(''" regexp_fragment
          "''error parsing regexp: missing closing ): (''"]
    by blast
qed

section \<open>Properties of the login handler\<close>

lemmas ev_defs = hooksToRun_def EventTypeBeforeAnyRequest_def EventTypeBeforeUnauthenticatedRequest_def
  EventTypeAfterAnyRequest_def EventTypeAfterUnauthenticatedRequest_def

lemma runHooks_none: "runHooks runHook_none () hooksToRun [] example_request [] = (True, [], [])"
  by (simp add: ev_defs runHook_none_def)

lemma runHooks_inject:
  "runHooks runHook_inject () hooksToRun [] example_request [] =
     (True, [], [add_header ''X-First'', add_header ''X-Second''])"
  by (simp add: ev_defs runHook_inject_def)

text \<open>
  The claim C1 lets a result that is neither Deny nor Proxy end in an internal-error
  response, with the process alive. With no hook configured and an interceptor that
  answers with another result, the handler writes nothing and the process exits.
\<close>

theorem unexpected_result_exits_counterexample:
  "createInterceptorHandler runHook_none (example_handler (InterceptorResultOther ''later''))
     ''login'' (example_interceptor (InterceptorResultOther ''later'')) [] example_request
   = ProcessExited []"
  by (simp add: createInterceptorHandler_def Let_def runHooks_none example_handler_def
      example_interceptor_def)

text \<open>
  C1, amended: for every request that passes the hooks, if the interceptor returns a
  result that is neither Deny nor Proxy, the handler logs it with \<^verbatim>\<open>Fatalf\<close>, which ends
  the process; the handler writes no response for the request.
\<close>

theorem unexpected_result_exits:
  assumes "runHooks runHook (hookRunner me) hooksToRun w r [] = (True, w', funcs)"
    and "Result (interceptorObj r) \<noteq> InterceptorResultDeny"
    and "Result (interceptorObj r) \<noteq> InterceptorResultProxy"
  shows "createInterceptorHandler runHook me name interceptorObj w r = ProcessExited w'"
  using assms by (simp add: createInterceptorHandler_def Let_def)

theorem unexpected_result_exits_witness:
  "runHooks runHook_none (hookRunner (example_handler (InterceptorResultOther ''later'')))
     hooksToRun [] example_request [] = (True, [], []) \<and>
   Result (example_interceptor (InterceptorResultOther ''later'') example_request)
     \<noteq> InterceptorResultDeny \<and>
   Result (example_interceptor (InterceptorResultOther ''later'') example_request)
     \<noteq> InterceptorResultProxy \<and>
   createInterceptorHandler runHook_none (example_handler (InterceptorResultOther ''later''))
     ''login'' (example_interceptor (InterceptorResultOther ''later'')) [] example_request
   = ProcessExited []"
proof -
  have a: "runHooks runHook_none (hookRunner (example_handler (InterceptorResultOther ''later'')))
     hooksToRun [] example_request [] = (True, [], [])"
    by (simp add: runHooks_none example_handler_def)
  have b: "Result (example_interceptor (InterceptorResultOther ''later'') example_request)
     \<noteq> InterceptorResultDeny"
    by (simp add: example_interceptor_def)
  have c: "Result (example_interceptor (InterceptorResultOther ''later'') example_request)
     \<noteq> InterceptorResultProxy"
    by (simp add: example_interceptor_def)
  from a b c unexpected_result_exits
      [where runHook = runHook_none and me = "example_handler (InterceptorResultOther ''later'')"
         and interceptorObj = "example_interceptor (InterceptorResultOther ''later'')"
         and r = example_request and w = "[]" and w' = "[]" and funcs = "[]" and name = "''login''"]
  show ?thesis by simp
qed

text \<open>
  The claim C2 gives the error envelope the status of the Deny result. For a Deny
  result of status 401 the handler writes the envelope with status 403.
\<close>

theorem deny_status_counterexample:
  "Result (example_interceptor InterceptorResultDeny example_request) = InterceptorResultDeny \<and>
   Status (example_interceptor InterceptorResultDeny example_request) = 401 \<and>
   createInterceptorHandler runHook_none (example_handler InterceptorResultDeny)
     ''login'' (example_interceptor InterceptorResultDeny) [] example_request
   = Returned [\<lparr>StatusCode = 403, Header = [(''Content-Type'', ''application/json'')],
                Body = JSON (JObject [(''errcode'', JString ''M_FORBIDDEN''),
                                      (''error'', JString ''Denied'')])\<rparr>]"
  by (simp add: createInterceptorHandler_def Let_def runHooks_none example_handler_def
      example_interceptor_def RespondWithMatrixError_def StatusForbidden_def)

text \<open>
  C2, amended: for every request that passes the hooks and on which the interceptor
  returns Deny with an error code and an error message, the handler writes the JSON
  error envelope of that code and message with the HTTP status 403 (Forbidden),
  whatever status the Deny result carries.
\<close>

theorem deny_writes_forbidden:
  assumes "runHooks runHook (hookRunner me) hooksToRun w r [] = (True, w', funcs)"
    and "Result (interceptorObj r) = InterceptorResultDeny"
  shows "createInterceptorHandler runHook me name interceptorObj w r =
     Returned (w' @ [\<lparr>StatusCode = 403, Header = [(''Content-Type'', ''application/json'')],
                       Body = JSON (JObject [(''errcode'', JString (ErrorCode (interceptorObj r))),
                                             (''error'', JString (ErrorMessage (interceptorObj r)))])\<rparr>])"
  using assms
  by (simp add: createInterceptorHandler_def Let_def RespondWithMatrixError_def
      StatusForbidden_def)

theorem deny_writes_forbidden_witness:
  "runHooks runHook_none (hookRunner (example_handler InterceptorResultDeny))
     hooksToRun [] example_request [] = (True, [], []) \<and>
   Result (example_interceptor InterceptorResultDeny example_request) = InterceptorResultDeny \<and>
   createInterceptorHandler runHook_none (example_handler InterceptorResultDeny)
     ''login'' (example_interceptor InterceptorResultDeny) [] example_request
   = Returned [\<lparr>StatusCode = 403, Header = [(''Content-Type'', ''application/json'')],
                Body = JSON (JObject [(''errcode'', JString ''M_FORBIDDEN''),
                                      (''error'', JString ''Denied'')])\<rparr>]"
proof -
  have a: "runHooks runHook_none (hookRunner (example_handler InterceptorResultDeny))
     hooksToRun [] example_request [] = (True, [], [])"
    by (simp add: runHooks_none example_handler_def)
  have b: "Result (example_interceptor InterceptorResultDeny example_request)
     = InterceptorResultDeny"
    by (simp add: example_interceptor_def)
  from a b deny_writes_forbidden
      [where runHook = runHook_none and me = "example_handler InterceptorResultDeny"
         and interceptorObj = "example_interceptor InterceptorResultDeny"
         and r = example_request and w = "[]" and w' = "[]" and funcs = "[]" and name = "''login''"]
  show ?thesis
    by (simp add: example_interceptor_def)
qed

text \<open>
  C7: for every request that ends in Deny, or that a hook ended (\<^verbatim>\<open>runHook\<close> returned
  false), no queued response modifier is run: the handler returns with the writer as
  the hook left it, or with the error envelope appended to it, and a run that differs
  only in the modifiers queued ends in the same outcome.
\<close>

theorem no_rewrite_on_deny:
  assumes "runHooks runHook (hookRunner me) hooksToRun w r [] = (ok, w', funcs)"
    and "runHooks runHook' (hookRunner me) hooksToRun w r [] = (ok, w', funcs')"
    and "\<not> ok \<or> Result (interceptorObj r) = InterceptorResultDeny"
  shows "createInterceptorHandler runHook me name interceptorObj w r =
           (if \<not> ok then Returned w'
            else Returned (RespondWithMatrixError w' StatusForbidden
                             (ErrorCode (interceptorObj r)) (ErrorMessage (interceptorObj r)))) \<and>
         createInterceptorHandler runHook' me name interceptorObj w r =
           createInterceptorHandler runHook me name interceptorObj w r"
  using assms by (auto simp: createInterceptorHandler_def Let_def)

theorem no_rewrite_on_deny_witness:
  "runHooks runHook_inject (hookRunner (example_handler InterceptorResultDeny))
     hooksToRun [] example_request [] =
     (True, [], [add_header ''X-First'', add_header ''X-Second'']) \<and>
   runHooks runHook_none (hookRunner (example_handler InterceptorResultDeny))
     hooksToRun [] example_request [] = (True, [], []) \<and>
   Result (example_interceptor InterceptorResultDeny example_request) = InterceptorResultDeny \<and>
   createInterceptorHandler runHook_inject (example_handler InterceptorResultDeny)
     ''login'' (example_interceptor InterceptorResultDeny) [] example_request
   = Returned [\<lparr>StatusCode = 403, Header = [(''Content-Type'', ''application/json'')],
                Body = JSON (JObject [(''errcode'', JString ''M_FORBIDDEN''),
                                      (''error'', JString ''Denied'')])\<rparr>] \<and>
   createInterceptorHandler runHook_none (example_handler InterceptorResultDeny)
     ''login'' (example_interceptor InterceptorResultDeny) [] example_request
   = createInterceptorHandler runHook_inject (example_handler InterceptorResultDeny)
     ''login'' (example_interceptor InterceptorResultDeny) [] example_request"
proof -
  have a: "runHooks runHook_inject (hookRunner (example_handler InterceptorResultDeny))
     hooksToRun [] example_request [] =
     (True, [], [add_header ''X-First'', add_header ''X-Second''])"
    by (simp add: runHooks_inject example_handler_def)
  have b: "runHooks runHook_none (hookRunner (example_handler InterceptorResultDeny))
     hooksToRun [] example_request [] = (True, [], [])"
    by (simp add: runHooks_none example_handler_def)
  have c: "\<not> True \<or> Result (example_interceptor InterceptorResultDeny example_request)
     = InterceptorResultDeny"
    by (simp add: example_interceptor_def)
  from a b c no_rewrite_on_deny
      [where runHook = runHook_inject and runHook' = runHook_none
         and me = "example_handler InterceptorResultDeny"
         and interceptorObj = "example_interceptor InterceptorResultDeny"
         and r = example_request and w = "[]" and w' = "[]" and ok = True
         and funcs = "[add_header ''X-First'', add_header ''X-Second'']" and funcs' = "[]"
         and name = "''login''"]
  show ?thesis
    by (simp add: example_interceptor_def RespondWithMatrixError_def StatusForbidden_def)
qed

text \<open>
  C8: for every request that passes the hooks and on which the interceptor returns
  Proxy: with an empty queue the handler serves the request through its own reverse
  proxy, to which it attaches nothing, so that the upstream response is written as it
  is when that proxy has no modifier; with a queue that is not empty the upstream
  response is written after the queued modifiers have been applied to it, in the
  order of the queue.
\<close>

theorem proxy_applies_rewrites_in_order:
  assumes "runHooks runHook (hookRunner me) hooksToRun w r [] = (True, w', funcs)"
    and "Result (interceptorObj r) = InterceptorResultProxy"
  shows "(funcs = [] \<longrightarrow>
            createInterceptorHandler runHook me name interceptorObj w r =
              Returned (ServeHTTP (reverseProxy me) w' r) \<and>
            (ModifyResponse (reverseProxy me) = None \<longrightarrow>
               createInterceptorHandler runHook me name interceptorObj w r =
                 Returned (w' @ [Upstream (reverseProxy me) r]))) \<and>
         (funcs \<noteq> [] \<longrightarrow>
            createInterceptorHandler runHook me name interceptorObj w r =
              Returned (w' @ [fold (\<lambda>f response. f response) funcs (Upstream (reverseProxy me) r)]))"
  using assms
  by (simp add: createInterceptorHandler_def Let_def ServeHTTP_def
      CreateChainedHttpResponseModifierFunc_def)

theorem proxy_applies_rewrites_in_order_witness:
  "runHooks runHook_inject (hookRunner (example_handler InterceptorResultProxy))
     hooksToRun [] example_request [] =
     (True, [], [add_header ''X-First'', add_header ''X-Second'']) \<and>
   Result (example_interceptor InterceptorResultProxy example_request) = InterceptorResultProxy \<and>
   createInterceptorHandler runHook_inject (example_handler InterceptorResultProxy)
     ''login'' (example_interceptor InterceptorResultProxy) [] example_request
   = Returned [\<lparr>StatusCode = 200, Header = [(''X-Second'', ''1''), (''X-First'', ''1'')],
                Body = Bytes ''{}''\<rparr>]"
proof -
  have a: "runHooks runHook_inject (hookRunner (example_handler InterceptorResultProxy))
     hooksToRun [] example_request [] =
     (True, [], [add_header ''X-First'', add_header ''X-Second''])"
    by (simp add: runHooks_inject example_handler_def)
  have b: "Result (example_interceptor InterceptorResultProxy example_request)
     = InterceptorResultProxy"
    by (simp add: example_interceptor_def)
  from a b proxy_applies_rewrites_in_order
      [where runHook = runHook_inject and me = "example_handler InterceptorResultProxy"
         and interceptorObj = "example_interceptor InterceptorResultProxy"
         and r = example_request and w = "[]" and w' = "[]"
         and funcs = "[add_header ''X-First'', add_header ''X-Second'']" and name = "''login''"]
  show ?thesis
    by (simp add: example_handler_def example_proxy_def add_header_def)
qed

end
